theory Spec2Isabelle
  imports Main
begin

section \<open>Frame rendering orchestration (packages/renderer/src/render-frames.ts)\<close>

text \<open>
  A shallow embedding of \<^verbatim>\<open>innerRenderFrames\<close> and \<^verbatim>\<open>renderFrames\<close>.
  Asynchronous code is modelled by explicit state passing: the closure variables of
  \<^verbatim>\<open>innerRenderFrames\<close> (\<^verbatim>\<open>assets\<close>, \<^verbatim>\<open>stopped\<close>,
  \<^verbatim>\<open>framesRendered\<close>, the pool behind \<^verbatim>\<open>poolPromise\<close>, \<^verbatim>\<open>pagesArray\<close>)
  form a record, and what the collaborators of one render attempt do (the page, the
  browser, the cancel signal) is an explicit environment value.

  The grain of the model is one render attempt: the body of an attempt runs from its
  acquisition of a page to its end as one step, and the frame tasks of a run take their
  steps one task after the other. Opening a page is taken to succeed, the callbacks
  \<^verbatim>\<open>onFrameBuffer\<close>, \<^verbatim>\<open>onFrameUpdate\<close> and \<^verbatim>\<open>onStart\<close> are taken not to throw, and
  the downloads started for the assets of a frame (whose failures go to \<^verbatim>\<open>onError\<close>)
  are left out.
\<close>

subsection \<open>Errors\<close>

datatype error =
    QualityRenamed            \<comment> \<open>'The "quality" option has been renamed. ...'\<close>
  | RenderWasStopped          \<comment> \<open>\<^verbatim>\<open>new Error('Render was stopped')\<close>\<close>
  | CancelledRenderFrames     \<comment> \<open>\<^verbatim>\<open>new Error(cancelErrorMessages.renderFrames)\<close>\<close>
  | NoOutputSpecified         \<comment> \<open>'Called renderFrames() without specifying either ...'\<close>
  | BothOutputsSpecified      \<comment> \<open>'Pass either `outputDir` or `onFrameBuffer` to renderFrames(), not both.'\<close>
  | UnexpectedNullBuffer      \<comment> \<open>'unexpected null buffer'\<close>
  | EmptyFramePlan            \<comment> \<open>configuration error of the plan builder\<close>
  | External string           \<comment> \<open>an error raised by a collaborator, with its message\<close>

subsection \<open>Render plan\<close>

datatype CountType = ActualFrames | FromZero

text \<open>
  Modelled from the spec: \<^verbatim>\<open>getRealFrameRange\<close> (get-frame-to-render.ts is not part of
  the sources at hand). Without a sub-range the plan covers every addressable frame,
  \<open>0\<close> to \<open>durationInFrames - 1\<close>; a sub-range is taken as given.
\<close>

definition getRealFrameRange :: "nat \<Rightarrow> (nat \<times> nat) option \<Rightarrow> nat \<times> nat" where
  "getRealFrameRange durationInFrames frameRange =
     (case frameRange of None \<Rightarrow> (0, durationInFrames - 1) | Some r \<Rightarrow> r)"

text \<open>
  Modelled from the spec: \<^verbatim>\<open>getFramesToRender\<close> (get-duration-from-frame-range.ts is
  not part of the sources at hand). The frames of the range that lie on the stride,
  counted from the first frame of the range, which is always included; an empty list
  (and a stride of zero) is a configuration error.
\<close>

definition getFramesToRender :: "nat \<times> nat \<Rightarrow> nat \<Rightarrow> error + nat list" where
  "getFramesToRender realFrameRange everyNthFrame =
     (let frames = filter (\<lambda>f. (f - fst realFrameRange) mod everyNthFrame = 0)
                          [fst realFrameRange ..< Suc (snd realFrameRange)]
      in if everyNthFrame = 0 \<or> frames = [] then Inl EmptyFramePlan else Inr frames)"

text \<open>
  Modelled from the spec: \<^verbatim>\<open>getFilePadLength\<close> (get-frame-padded-index.ts is not part
  of the sources at hand). The spec fixes what the width is computed from, not how: in
  actual-frames mode from the last frame number, in from-zero mode from the number of
  frames. The two computations are parameters.
\<close>

definition getFilePadLength :: "(nat \<Rightarrow> nat) \<Rightarrow> (nat \<Rightarrow> nat) \<Rightarrow> nat \<Rightarrow> nat \<Rightarrow> CountType \<Rightarrow> nat" where
  "getFilePadLength widthOfLastFrame widthOfTotalFrames lastFrame totalFrames countType =
     (case countType of
        ActualFrames \<Rightarrow> widthOfLastFrame lastFrame
      | FromZero \<Rightarrow> widthOfTotalFrames totalFrames)"

text \<open>
  Modelled from the spec: the number a frame's file is named by
  (\<^verbatim>\<open>getFrameOutputFileName\<close>, get-frame-padded-index.ts): the frame number in
  actual-frames mode, the position in the plan in from-zero mode.
\<close>

definition outputIndex :: "CountType \<Rightarrow> nat \<Rightarrow> nat \<Rightarrow> nat" where
  "outputIndex countType frame index =
     (case countType of ActualFrames \<Rightarrow> frame | FromZero \<Rightarrow> index)"

record RenderPlan =
  framesToRender :: "nat list"
  lastFrame :: nat
  countType :: CountType
  filePadLength :: nat

text \<open>Lines 249-250: \<^verbatim>\<open>everyNthFrame === 1 ? 'actual-frames' : 'from-zero'\<close>.\<close>

definition chooseCountType :: "nat \<Rightarrow> CountType" where
  "chooseCountType everyNthFrame = (if everyNthFrame = 1 then ActualFrames else FromZero)"

text \<open>Lines 157-163 and 249-256 of \<^verbatim>\<open>innerRenderFrames\<close>.\<close>

definition buildPlan ::
  "(nat \<Rightarrow> nat) \<Rightarrow> (nat \<Rightarrow> nat) \<Rightarrow> nat \<Rightarrow> (nat \<times> nat) option \<Rightarrow> nat \<Rightarrow> error + RenderPlan" where
  "buildPlan widthOfLastFrame widthOfTotalFrames durationInFrames frameRange everyNthFrame =
     (let realFrameRange = getRealFrameRange durationInFrames frameRange in
      case getFramesToRender realFrameRange everyNthFrame of
        Inl e \<Rightarrow> Inl e
      | Inr frames \<Rightarrow>
          (let lastFrame = last frames;
               countType = chooseCountType everyNthFrame
           in Inr \<lparr> framesToRender = frames,
                    lastFrame = lastFrame,
                    countType = countType,
                    filePadLength = getFilePadLength widthOfLastFrame widthOfTotalFrames
                                      lastFrame (length frames) countType \<rparr>))"

text \<open>
  Line 457: \<^verbatim>\<open>framesToRender.map((frame, index) => ...)\<close> pairs every frame with its
  position in the plan.
\<close>

definition frameTasks :: "RenderPlan \<Rightarrow> (nat \<times> nat) list" where
  "frameTasks plan = zip (framesToRender plan) [0 ..< length (framesToRender plan)]"

definition outputIndices :: "RenderPlan \<Rightarrow> nat list" where
  "outputIndices plan =
     map (\<lambda>(frame, index). outputIndex (countType plan) frame index) (frameTasks plan)"


subsection \<open>Worker pool\<close>

text \<open>
  Modelled from the spec: class \<^verbatim>\<open>Pool\<close> (pool.ts is not part of the sources at
  hand). Handles are page numbers. The pool keeps the idle handles in order, the handles
  it has handed out (busy), and the queue of suspended callers, named by the output
  index of their frame task. \<open>acquire\<close> returns an idle handle immediately, or suspends
  the caller; \<open>release\<close> returns a handle to idle, or hands it to the longest-waiting
  suspended caller (first in, first out).
\<close>

record Pool =
  idle :: "nat list"
  busy :: "nat list"
  waiters :: "nat list"

definition newPool :: "nat list \<Rightarrow> Pool" where
  "newPool pages = \<lparr> idle = pages, busy = [], waiters = [] \<rparr>"

definition acquire :: "nat \<Rightarrow> Pool \<Rightarrow> nat option \<times> Pool" where
  "acquire caller p =
     (case idle p of
        [] \<Rightarrow> (None, p\<lparr> waiters := waiters p @ [caller] \<rparr>)
      | h # hs \<Rightarrow> (Some h, p\<lparr> idle := hs, busy := h # busy p \<rparr>))"

definition release :: "nat \<Rightarrow> Pool \<Rightarrow> nat option \<times> Pool" where
  "release h p =
     (case waiters p of
        [] \<Rightarrow> (None, p\<lparr> idle := idle p @ [h], busy := remove1 h (busy p) \<rparr>)
      | w # ws \<Rightarrow> (Some w, p\<lparr> waiters := ws, busy := h # remove1 h (busy p) \<rparr>))"

definition handles :: "Pool \<Rightarrow> nat" where
  "handles p = length (idle p) + length (busy p)"

subsection \<open>State of one run\<close>

text \<open>
  What a run does to its workers and slots is recorded in \<open>events\<close>, in order; the
  record is not a variable of the source.
\<close>

datatype event =
    NewPage nat                 \<comment> \<open>\<^verbatim>\<open>makePage\<close> opened this page\<close>
  | Attempt nat nat nat         \<comment> \<open>frame, index, attempt: \<^verbatim>\<open>renderFrame(frame, index)\<close> is called\<close>
  | Acquired nat nat            \<comment> \<open>index, page: \<^verbatim>\<open>pool.acquire()\<close> handed out the page\<close>
  | Seeked nat nat              \<comment> \<open>page, frame: \<^verbatim>\<open>seekToFrame\<close> drove the page\<close>
  | Captured nat nat            \<comment> \<open>page, frame: \<^verbatim>\<open>takeFrameAndCompose\<close> drove the page\<close>
  | FrameBuffer nat             \<comment> \<open>frame: \<^verbatim>\<open>onFrameBuffer(buffer, frame)\<close>\<close>
  | AssetsWritten nat           \<comment> \<open>index: \<^verbatim>\<open>assets[index] = compressedAssets\<close>\<close>
  | FrameUpdate nat nat         \<comment> \<open>framesRendered, frame: \<^verbatim>\<open>onFrameUpdate\<close>\<close>
  | Released nat                \<comment> \<open>page: \<^verbatim>\<open>pool.release(freePage)\<close>\<close>
  | BrowserReplaced             \<comment> \<open>\<^verbatim>\<open>browserReplacer.replaceBrowser\<close> ran its cycle\<close>

record 'a RenderState =
  pool :: Pool
  pagesArray :: "nat list"
  stopped :: bool
  assets :: "'a list option list"
  framesRendered :: nat
  events :: "event list"

definition emit :: "event \<Rightarrow> 'a RenderState \<Rightarrow> 'a RenderState" where
  "emit e s = s\<lparr> events := events s @ [e] \<rparr>"

text \<open>
  Lines 165-236, \<^verbatim>\<open>makePage\<close>: a new page of the current browser, pushed onto
  \<^verbatim>\<open>pagesArray\<close>. Pages are numbered in the order they are opened.
\<close>

definition makePage :: "'a RenderState \<Rightarrow> nat \<times> 'a RenderState" where
  "makePage s =
     (let page = length (pagesArray s)
      in (page, emit (NewPage page) (s\<lparr> pagesArray := pagesArray s @ [page] \<rparr>)))"

fun makePages :: "nat \<Rightarrow> 'a RenderState \<Rightarrow> nat list \<times> 'a RenderState" where
  "makePages 0 s = ([], s)"
| "makePages (Suc n) s =
     (let (page, s1) = makePage s; (pages, s2) = makePages n s1 in (page # pages, s2))"

text \<open>Lines 238-245, \<^verbatim>\<open>getPool\<close>: \<open>actualConcurrency\<close> pages, then \<^verbatim>\<open>new Pool(pages)\<close>.\<close>

definition getPool :: "nat \<Rightarrow> 'a RenderState \<Rightarrow> 'a RenderState" where
  "getPool actualConcurrency s =
     (let (pages, s1) = makePages actualConcurrency s in s1\<lparr> pool := newPool pages \<rparr>)"

text \<open>
  Lines 438-445, the callback given to \<^verbatim>\<open>replaceBrowser\<close>: \<open>actualConcurrency\<close> new
  pages, each released into the pool of the run.
\<close>

definition refillPool :: "nat \<Rightarrow> 'a RenderState \<Rightarrow> 'a RenderState" where
  "refillPool actualConcurrency s =
     (let (pages, s1) = makePages actualConcurrency s
      in s1\<lparr> pool := fold (\<lambda>newPage p. snd (release newPage p)) pages (pool s1) \<rparr>)"

text \<open>
  Lines 257-269: the state \<^verbatim>\<open>innerRenderFrames\<close> starts its frame tasks in. One slot
  of \<^verbatim>\<open>assets\<close> per planned frame, each \<^verbatim>\<open>undefined\<close>.
\<close>

definition initialState :: "nat \<Rightarrow> RenderPlan \<Rightarrow> 'a RenderState" where
  "initialState actualConcurrency plan =
     getPool actualConcurrency
       \<lparr> pool = newPool [], pagesArray = [], stopped = False,
         assets = replicate (length (framesToRender plan)) None,
         framesRendered = 0, events = [] \<rparr>"


subsection \<open>Options and the environment of one render attempt\<close>

record Options =
  outputDir :: "string option"     \<comment> \<open>\<^verbatim>\<open>string | null\<close>\<close>
  onFrameBuffer :: bool            \<comment> \<open>whether the callback is given\<close>
  imageFormat :: string            \<comment> \<open>\<^verbatim>\<open>'png' | 'jpeg' | 'none'\<close>\<close>
  actualConcurrency :: nat

text \<open>JavaScript truthiness of \<^verbatim>\<open>outputDir\<close>: \<^verbatim>\<open>null\<close> and the empty string are falsy.\<close>

definition truthyDir :: "string option \<Rightarrow> bool" where
  "truthyDir d = (case d of None \<Rightarrow> False | Some str \<Rightarrow> str \<noteq> [])"

text \<open>
  What the collaborators do during one attempt at a frame. The cancel signal may fire
  while the task waits for a page (before line 287 reads \<^verbatim>\<open>stopped\<close>), later but
  before the promise of \<^verbatim>\<open>renderFrame\<close> settles, or after that and before the
  \<^verbatim>\<open>catch\<close> block reads \<^verbatim>\<open>stopped\<close> (line 423). The page may report an error to
  \<^verbatim>\<open>errorCallbackOnFrame\<close> while \<^verbatim>\<open>seekToFrame\<close> or \<^verbatim>\<open>takeFrameAndCompose\<close>
  is awaited; each of the two may resolve or throw. \<^verbatim>\<open>takeFrameAndCompose\<close> resolves
  with whether a buffer is present and with the collected assets.
\<close>

record 'a AttemptEnv =
  cancelBeforeCheck :: bool
  pageErrorInSeek :: "error option"
  seekToFrame :: "error option"
  pageErrorInCapture :: "error option"
  takeFrameAndCompose :: "error + bool \<times> 'a list"
  cancelBeforeSettle :: bool
  cancelBeforeCatch :: bool
  replaceBrowser :: "error option"

subsection \<open>One render attempt\<close>

datatype BodyEnd = Returned | Threw error | Suspended

text \<open>\<^verbatim>\<open>assets[index] = v\<close>: JavaScript extends the array when the index is out of range.\<close>

definition assign :: "'b option list \<Rightarrow> nat \<Rightarrow> 'b \<Rightarrow> 'b option list" where
  "assign xs i v =
     (if i < length xs then xs[i := Some v]
      else xs @ replicate (i - length xs) None @ [Some v])"

text \<open>\<^verbatim>\<open>assets.filter(truthy).flat(1)\<close>: the assets of all slots filled so far.\<close>

definition filledAssets :: "'a list option list \<Rightarrow> 'a list" where
  "filledAssets xs = concat (map (\<lambda>slot. case slot of None \<Rightarrow> [] | Some l \<Rightarrow> l) xs)"

text \<open>
  Lines 352-373, after a capture that gave what was asked for: compress and store the
  assets, count the frame, report it, release the page.
\<close>

definition finishFrame ::
  "('a list \<Rightarrow> 'a \<Rightarrow> 'a) \<Rightarrow> nat \<Rightarrow> nat \<Rightarrow> nat \<Rightarrow> 'a list \<Rightarrow> 'a RenderState \<Rightarrow> 'a RenderState" where
  "finishFrame compressAsset frame index freePage collectedAssets s =
     (let compressedAssets = map (compressAsset (filledAssets (assets s))) collectedAssets;
          s1 = emit (AssetsWritten index) (s\<lparr> assets := assign (assets s) index compressedAssets \<rparr>);
          s2 = s1\<lparr> framesRendered := framesRendered s1 + 1 \<rparr>;
          s3 = emit (FrameUpdate (framesRendered s2) frame) s2;
          s4 = emit (Released freePage) s3
      in s4\<lparr> pool := snd (release freePage (pool s4)) \<rparr>)"

text \<open>
  Lines 271-374, \<^verbatim>\<open>renderFrameWithOptionToReject\<close>. The result is the errors passed to
  \<^verbatim>\<open>reject\<close> while the body ran (in order), how the body ended, and the state. A call
  of \<^verbatim>\<open>reject\<close> does not end the body: after an error reported by the page the body
  goes on with whatever \<^verbatim>\<open>seekToFrame\<close> and \<^verbatim>\<open>takeFrameAndCompose\<close> do.
\<close>

definition renderFrameWithOptionToReject ::
  "Options \<Rightarrow> ('a list \<Rightarrow> 'a \<Rightarrow> 'a) \<Rightarrow> 'a AttemptEnv \<Rightarrow> nat \<Rightarrow> nat \<Rightarrow> 'a RenderState
     \<Rightarrow> error list \<times> BodyEnd \<times> 'a RenderState" where
  "renderFrameWithOptionToReject opts compressAsset env frame index s =
     (let s0 = s\<lparr> stopped := stopped s \<or> cancelBeforeCheck env \<rparr> in
      case acquire index (pool s0) of
        (None, p) \<Rightarrow> ([], Suspended, s0\<lparr> pool := p \<rparr>)
      | (Some freePage, p) \<Rightarrow>
          (let s1 = emit (Acquired index freePage) (s0\<lparr> pool := p \<rparr>) in
           if stopped s1 then ([RenderWasStopped], Returned, s1)
           else
             (let r1 = (case pageErrorInSeek env of None \<Rightarrow> [] | Some e \<Rightarrow> [e]);
                  s2 = emit (Seeked freePage frame) s1
              in case seekToFrame env of
                   Some e \<Rightarrow> (r1, Threw e, s2)
                 | None \<Rightarrow>
                     if \<not> truthyDir (outputDir opts) \<and> \<not> onFrameBuffer opts
                          \<and> imageFormat opts \<noteq> ''none''
                     then (r1, Threw NoOutputSpecified, s2)
                     else if truthyDir (outputDir opts) \<and> onFrameBuffer opts
                          \<and> imageFormat opts \<noteq> ''none''
                     then (r1, Threw BothOutputsSpecified, s2)
                     else
                       (let r2 = r1 @ (case pageErrorInCapture env of None \<Rightarrow> [] | Some e \<Rightarrow> [e]);
                            s3 = emit (Captured freePage frame) s2
                        in case takeFrameAndCompose env of
                             Inl e \<Rightarrow> (r2, Threw e, s3)
                           | Inr (buffer, collectedAssets) \<Rightarrow>
                               if onFrameBuffer opts \<and> \<not> buffer
                               then (r2, Threw UnexpectedNullBuffer, s3)
                               else
                                 (let s4 = (if onFrameBuffer opts
                                            then emit (FrameBuffer frame) s3 else s3)
                                  in (r2, Returned,
                                      finishFrame compressAsset frame index freePage
                                        collectedAssets s4))))))"

datatype Settled = Resolved | Rejected error | Pending

text \<open>
  Lines 376-392, \<^verbatim>\<open>renderFrame\<close>: the promise settles once; the first call of
  \<^verbatim>\<open>reject\<close> wins over the end of the body, and a suspended body never settles it.
\<close>

definition renderFrame :: "error list \<Rightarrow> BodyEnd \<Rightarrow> Settled" where
  "renderFrame rejects bodyEnd =
     (case rejects of
        e # _ \<Rightarrow> Rejected e
      | [] \<Rightarrow> (case bodyEnd of Returned \<Rightarrow> Resolved | Threw e \<Rightarrow> Rejected e | Suspended \<Rightarrow> Pending))"

subsection \<open>A frame task with its retries\<close>

definition MAX_RETRIES_PER_FRAME :: nat where
  "MAX_RETRIES_PER_FRAME = 1"

text \<open>
  Lines 405-413, the \<^verbatim>\<open>try\<close> block of \<^verbatim>\<open>renderFrameAndRetryTargetClose\<close>: the race
  of \<^verbatim>\<open>renderFrame(frame, index)\<close> with the cancel signal.

  Modelled from the spec: the cancel signal (make-cancel-signal.ts is not part of the
  sources at hand). It fires once; a callback subscribed after that runs at once. So
  the race is lost to the cancel error when the signal fired before the promise of
  \<^verbatim>\<open>renderFrame\<close> settled.
\<close>

definition tryRenderFrame ::
  "Options \<Rightarrow> ('a list \<Rightarrow> 'a \<Rightarrow> 'a) \<Rightarrow> 'a AttemptEnv \<Rightarrow> nat \<Rightarrow> nat \<Rightarrow> 'a RenderState
     \<Rightarrow> Settled \<times> 'a RenderState" where
  "tryRenderFrame opts compressAsset env frame index s =
     (case renderFrameWithOptionToReject opts compressAsset env frame index s of
        (rejects, bodyEnd, s1) \<Rightarrow>
          (if stopped s \<or> cancelBeforeCheck env \<or> cancelBeforeSettle env
           then Rejected CancelledRenderFrames
           else renderFrame rejects bodyEnd,
           s1\<lparr> stopped := stopped s1 \<or> cancelBeforeSettle env \<rparr>))"

text \<open>
  Lines 394-454, \<^verbatim>\<open>renderFrameAndRetryTargetClose\<close>. \<^verbatim>\<open>isUserCancelledRender\<close> and
  \<^verbatim>\<open>isTargetClosedErr\<close> are not part of the sources at hand and are parameters.
  \<open>envs\<close> gives the environment of each attempt, by its number.

  Modelled from the spec: \<^verbatim>\<open>browserReplacer.replaceBrowser\<close> (replace-browser.ts is not
  part of the sources at hand), as one whole cycle here: it fails with an error, or
  replaces the browser and runs the callback it was given.
\<close>

fun renderFrameAndRetryTargetClose ::
  "(error \<Rightarrow> bool) \<Rightarrow> (error \<Rightarrow> bool) \<Rightarrow> Options \<Rightarrow> ('a list \<Rightarrow> 'a \<Rightarrow> 'a) \<Rightarrow> (nat \<Rightarrow> 'a AttemptEnv)
     \<Rightarrow> nat \<Rightarrow> nat \<Rightarrow> nat \<Rightarrow> nat \<Rightarrow> 'a RenderState \<Rightarrow> Settled \<times> 'a RenderState" where
  "renderFrameAndRetryTargetClose isUserCancelledRender isTargetClosedErr opts compressAsset envs
       frame index retriesLeft attempt s =
     (case tryRenderFrame opts compressAsset (envs attempt) frame index
             (emit (Attempt frame index attempt) s) of
        (Resolved, s2) \<Rightarrow> (Resolved, s2)
      | (Pending, s2) \<Rightarrow> (Pending, s2)
      | (Rejected err, s2) \<Rightarrow>
          (let s3 = s2\<lparr> stopped := stopped s2 \<or> cancelBeforeCatch (envs attempt) \<rparr> in
           if isUserCancelledRender err then (Rejected err, s3)
           else if \<not> isTargetClosedErr err then (Rejected err, s3)
           else if stopped s3 then (Resolved, s3)
           else
             (case retriesLeft of
                0 \<Rightarrow> (Rejected err, s3)
              | Suc n \<Rightarrow>
                  (case replaceBrowser (envs attempt) of
                     Some e \<Rightarrow> (Rejected e, s3)
                   | None \<Rightarrow>
                       renderFrameAndRetryTargetClose isUserCancelledRender
                         isTargetClosedErr opts compressAsset envs frame index n
                         (attempt + 1)
                         (refillPool (actualConcurrency opts)
                            (emit BrowserReplaced s3))))))"

declare renderFrameAndRetryTargetClose.simps [simp del]

subsection \<open>The run\<close>

text \<open>
  Lines 456-465, \<^verbatim>\<open>progress\<close>: \<^verbatim>\<open>Promise.all\<close> over one task per planned frame,
  each with \<open>MAX_RETRIES_PER_FRAME\<close> retries. The tasks are run one after the other, in
  the order of the plan, each to its end before the next one asks for a page;
  \<open>envs index attempt\<close> is the environment of an attempt. The join rejects with the
  first rejection, and stays pending when a task never settles.
\<close>

fun progress ::
  "(error \<Rightarrow> bool) \<Rightarrow> (error \<Rightarrow> bool) \<Rightarrow> Options \<Rightarrow> ('a list \<Rightarrow> 'a \<Rightarrow> 'a)
     \<Rightarrow> (nat \<Rightarrow> nat \<Rightarrow> 'a AttemptEnv) \<Rightarrow> (nat \<times> nat) list \<Rightarrow> 'a RenderState
     \<Rightarrow> Settled \<times> 'a RenderState" where
  "progress isUserCancelledRender isTargetClosedErr opts compressAsset envs [] s = (Resolved, s)"
| "progress isUserCancelledRender isTargetClosedErr opts compressAsset envs
       ((frame, index) # tasks) s =
     (case renderFrameAndRetryTargetClose isUserCancelledRender isTargetClosedErr opts
             compressAsset (envs index) frame index MAX_RETRIES_PER_FRAME 1 s of
        (Rejected err, s1) \<Rightarrow> (Rejected err, s1)
      | (Resolved, s1) \<Rightarrow>
          progress isUserCancelledRender isTargetClosedErr opts compressAsset envs tasks s1
      | (Pending, s1) \<Rightarrow>
          (case progress isUserCancelledRender isTargetClosedErr opts compressAsset envs
                  tasks s1 of
             (Rejected err, s2) \<Rightarrow> (Rejected err, s2)
           | (_, s2) \<Rightarrow> (Pending, s2)))"

text \<open>\<^verbatim>\<open>String(n)\<close> for a natural number: its decimal digits.\<close>

function showNat :: "nat \<Rightarrow> string" where
  "showNat n =
     (if n < 10 then [''0123456789'' ! n]
      else showNat (n div 10) @ [''0123456789'' ! (n mod 10)])"
  by pat_completeness auto
termination
  by (relation "measure id") auto

declare showNat.simps [simp del]

record 'a RenderFramesOutput =
  assetsOut :: "'a list option list"    \<comment> \<open>\<^verbatim>\<open>assetsInfo.assets\<close>\<close>
  imageSequenceName :: string           \<comment> \<open>\<^verbatim>\<open>assetsInfo.imageSequenceName\<close>\<close>
  firstFrameIndex :: nat                \<comment> \<open>\<^verbatim>\<open>assetsInfo.firstFrameIndex\<close>\<close>
  frameCount :: nat

text \<open>Lines 467-479, \<^verbatim>\<open>happyPath\<close>: the value the run resolves with.\<close>

definition happyPath :: "Options \<Rightarrow> RenderPlan \<Rightarrow> 'a RenderState \<Rightarrow> 'a RenderFramesOutput" where
  "happyPath opts plan s =
     \<lparr> assetsOut = assets s,
       imageSequenceName =
         ''element-%0'' @ showNat (filePadLength plan) @ ''d.'' @ imageFormat opts,
       firstFrameIndex = (if countType plan = FromZero then 0 else hd (framesToRender plan)),
       frameCount = length (framesToRender plan) \<rparr>"

datatype 'r Outcome = Fulfilled 'r | Failed error | NeverSettles

text \<open>
  Lines 98-486, \<^verbatim>\<open>innerRenderFrames\<close>. \<open>Inl\<close> is an error thrown before any frame
  task starts; otherwise the outcome of the promise and the state the run ends in.
\<close>

definition innerRenderFrames ::
  "(error \<Rightarrow> bool) \<Rightarrow> (error \<Rightarrow> bool) \<Rightarrow> (nat \<Rightarrow> nat) \<Rightarrow> (nat \<Rightarrow> nat) \<Rightarrow> ('a list \<Rightarrow> 'a \<Rightarrow> 'a)
     \<Rightarrow> Options \<Rightarrow> bool \<Rightarrow> nat \<Rightarrow> (nat \<times> nat) option \<Rightarrow> nat \<Rightarrow> (nat \<Rightarrow> nat \<Rightarrow> 'a AttemptEnv)
     \<Rightarrow> error + 'a RenderFramesOutput Outcome \<times> 'a RenderState" where
  "innerRenderFrames isUserCancelledRender isTargetClosedErr widthOfLastFrame widthOfTotalFrames
       compressAsset opts quality durationInFrames frameRange everyNthFrame envs =
     (if quality then Inl QualityRenamed
      else
        case buildPlan widthOfLastFrame widthOfTotalFrames durationInFrames frameRange
               everyNthFrame of
          Inl e \<Rightarrow> Inl e
        | Inr plan \<Rightarrow>
            (case progress isUserCancelledRender isTargetClosedErr opts compressAsset envs
                    (frameTasks plan) (initialState (actualConcurrency opts) plan) of
               (Resolved, s) \<Rightarrow> Inr (Fulfilled (happyPath opts plan s), s)
             | (Rejected err, s) \<Rightarrow> Inr (Failed err, s)
             | (Pending, s) \<Rightarrow> Inr (NeverSettles, s)))"

text \<open>
  Lines 494-655, \<^verbatim>\<open>renderFrames\<close>: the validation of the options (by functions that
  are not part of the sources at hand; \<open>invalid\<close> is the error they throw, if any), then
  the race of the cancel signal with \<^verbatim>\<open>innerRenderFrames\<close>. The callback of this race
  is subscribed before those of the frame tasks, so a signal that fires before the run
  has settled rejects the run with the cancel error.
\<close>

definition renderFrames ::
  "(error \<Rightarrow> bool) \<Rightarrow> (error \<Rightarrow> bool) \<Rightarrow> (nat \<Rightarrow> nat) \<Rightarrow> (nat \<Rightarrow> nat) \<Rightarrow> ('a list \<Rightarrow> 'a \<Rightarrow> 'a)
     \<Rightarrow> error option \<Rightarrow> Options \<Rightarrow> bool \<Rightarrow> nat \<Rightarrow> (nat \<times> nat) option \<Rightarrow> nat
     \<Rightarrow> (nat \<Rightarrow> nat \<Rightarrow> 'a AttemptEnv) \<Rightarrow> 'a RenderFramesOutput Outcome" where
  "renderFrames isUserCancelledRender isTargetClosedErr widthOfLastFrame widthOfTotalFrames
       compressAsset invalid opts quality durationInFrames frameRange everyNthFrame envs =
     (case invalid of
        Some e \<Rightarrow> Failed e
      | None \<Rightarrow>
          (case innerRenderFrames isUserCancelledRender isTargetClosedErr widthOfLastFrame
                  widthOfTotalFrames compressAsset opts quality durationInFrames frameRange
                  everyNthFrame envs of
             Inl e \<Rightarrow> Failed e
           | Inr (outcome, s) \<Rightarrow>
               if stopped s then Failed CancelledRenderFrames else outcome))"

subsection \<open>Crash recovery coordinator\<close>






subsection \<open>Concrete inputs\<close>

text \<open>A run whose collaborators do what they are asked: every attempt succeeds.\<close>

definition okEnv :: "nat AttemptEnv" where
  "okEnv = \<lparr> cancelBeforeCheck = False, pageErrorInSeek = None, seekToFrame = None,
             pageErrorInCapture = None, takeFrameAndCompose = Inr (True, [7]),
             cancelBeforeSettle = False, cancelBeforeCatch = False, replaceBrowser = None \<rparr>"

definition toDir :: Options where
  "toDir = \<lparr> outputDir = Some ''out'', onFrameBuffer = False, imageFormat = ''png'',
             actualConcurrency = 1 \<rparr>"

definition planOf :: "nat list \<Rightarrow> RenderPlan" where
  "planOf frames = \<lparr> framesToRender = frames, lastFrame = last frames,
                     countType = ActualFrames, filePadLength = 1 \<rparr>"

definition isCancel :: "error \<Rightarrow> bool" where
  "isCancel e = (e = CancelledRenderFrames)"

definition isCrash :: "error \<Rightarrow> bool" where
  "isCrash e = (e = External ''Target closed'')"

text \<open>The events of \<open>s'\<close> that came after those of \<open>s\<close>.\<close>

definition since :: "'a RenderState \<Rightarrow> 'a RenderState \<Rightarrow> event list" where
  "since s s' = drop (length (events s)) (events s')"

text \<open>Neither an output directory nor a frame-buffer callback, for a format that captures.\<close>

definition noOutput :: Options where
  "noOutput = \<lparr> outputDir = None, onFrameBuffer = False, imageFormat = ''png'',
                actualConcurrency = 1 \<rparr>"


text \<open>Counting the attempts and the browser replacements among events.\<close>

definition isAttempt :: "event \<Rightarrow> bool" where
  "isAttempt e = (case e of Attempt _ _ _ \<Rightarrow> True | _ \<Rightarrow> False)"

definition attempts :: "event list \<Rightarrow> nat" where
  "attempts evs = length (filter isAttempt evs)"

definition replacementsIn :: "event list \<Rightarrow> nat" where
  "replacementsIn evs = length (filter (\<lambda>e. e = BrowserReplaced) evs)"

definition quiet :: "event list \<Rightarrow> bool" where
  "quiet evs = (attempts evs = 0 \<and> replacementsIn evs = 0)"




definition afterCrash :: "nat RenderState" where
  "afterCrash = \<lparr> pool = \<lparr> idle = [], busy = [0], waiters = [] \<rparr>, pagesArray = [0],
                  stopped = False, assets = [None], framesRendered = 0,
                  events = [NewPage 0, Attempt 0 0 1, Acquired 0 0, Seeked 0 0] \<rparr>"



text \<open>Every attempt crashes.\<close>

definition crashTwice :: "nat \<Rightarrow> nat AttemptEnv" where
  "crashTwice attempt = okEnv \<lparr> seekToFrame := Some (External ''Target closed'') \<rparr>"


text \<open>The number a string of decimal digits stands for.\<close>

definition decimalValue :: "string \<Rightarrow> nat" where
  "decimalValue str = foldl (\<lambda>acc ch. 10 * acc + (of_char ch - 48)) 0 str"

text \<open>Padding widths as the number of decimal digits.\<close>

definition digits :: "nat \<Rightarrow> nat" where
  "digits n = length (showNat n)"

text \<open>The state a run of the single frame 0 ends in when nothing fails.\<close>

definition afterOneFrame :: "nat RenderState" where
  "afterOneFrame = \<lparr> pool = \<lparr> idle = [0], busy = [], waiters = [] \<rparr>, pagesArray = [0],
                     stopped = False, assets = [Some [7]], framesRendered = 1,
                     events = [NewPage 0, Attempt 0 0 1, Acquired 0 0, Seeked 0 0,
                               Captured 0 0, AssetsWritten 0, FrameUpdate 1 0,
                               Released 0] \<rparr>"

text \<open>
  Whether a slot of \<^verbatim>\<open>assets\<close> is filled; the slots written and the number of
  captures among events.
\<close>

definition filled :: "'a RenderState \<Rightarrow> nat \<Rightarrow> bool" where
  "filled s i = (i < length (assets s) \<and> assets s ! i \<noteq> None)"


definition capturesIn :: "event list \<Rightarrow> nat" where
  "capturesIn evs = length (filter (\<lambda>e. case e of Captured _ _ \<Rightarrow> True | _ \<Rightarrow> False) evs)"

text \<open>
  The cancel signal has fired before the frame task starts; the state the task then
  leaves.
\<close>

definition stoppedAtStart :: "nat RenderState" where
  "stoppedAtStart = (initialState 1 (planOf [0])) \<lparr> stopped := True \<rparr>"

definition cancelledAfterAcquire :: "nat RenderState" where
  "cancelledAfterAcquire =
     \<lparr> pool = \<lparr> idle = [], busy = [0], waiters = [] \<rparr>, pagesArray = [0], stopped = True,
       assets = [None], framesRendered = 0,
       events = [NewPage 0, Attempt 0 0 1, Acquired 0 0] \<rparr>"



section \<open>Properties\<close>

lemmas run_defs = renderFrameWithOptionToReject_def tryRenderFrame_def renderFrame_def
  acquire_def release_def emit_def finishFrame_def assign_def filledAssets_def truthyDir_def
  refillPool_def makePage_def getPool_def newPool_def initialState_def Let_def

lemmas input_defs = okEnv_def toDir_def planOf_def isCancel_def isCrash_def

subsection \<open>Render plan\<close>

lemma last_sorted_Max: "sorted xs \<Longrightarrow> xs \<noteq> [] \<Longrightarrow> last xs = Max (set xs)"
proof (induction xs)
  case Nil
  then show ?case by simp
next
  case (Cons x xs)
  show ?case
  proof (cases "xs = []")
    case True
    then show ?thesis by simp
  next
    case False
    with Cons have "last xs = Max (set xs)" by simp
    moreover have "x \<le> last xs"
      using Cons.prems(1) False by (simp add: last_in_set)
    ultimately show ?thesis using False by (simp add: max_def)
  qed
qed

lemma getFramesToRender_sorted:
  assumes "getFramesToRender r n = Inr frames"
  shows "sorted frames \<and> frames \<noteq> []"
proof -
  have "sorted (filter (\<lambda>f. (f - fst r) mod n = 0) [fst r ..< Suc (snd r)])"
    by (rule sorted_wrt_filter) (rule sorted_upt)
  with assms show ?thesis
    by (auto simp add: getFramesToRender_def Let_def simp del: upt_Suc split: if_splits)
qed

lemma buildPlan_Inr:
  assumes "buildPlan wl wt d r n = Inr plan"
  shows "\<exists>frames. getFramesToRender (getRealFrameRange d r) n = Inr frames
           \<and> plan = \<lparr> framesToRender = frames, lastFrame = last frames,
                       countType = chooseCountType n,
                       filePadLength = getFilePadLength wl wt (last frames) (length frames)
                                         (chooseCountType n) \<rparr>"
  using assms by (auto simp: buildPlan_def Let_def split: sum.splits)

lemma map_outputIndex_actual:
  "map (\<lambda>(frame, index). outputIndex ActualFrames frame index) (zip xs [0..<length xs]) = xs"
  by (simp add: outputIndex_def case_prod_unfold)

lemma map_outputIndex_zero:
  "map (\<lambda>(frame, index). outputIndex FromZero frame index) (zip xs [0..<length xs])
     = [0..<length xs]"
  by (simp add: outputIndex_def case_prod_unfold)

lemma frames_20_5: "getFramesToRender (0, 19) 5 = Inr [0, 5, 10, 15]"
  by code_simp

lemma frames_20_1: "getFramesToRender (0, 19) (Suc 0) = Inr [0 ..< 20]"
  by (simp add: getFramesToRender_def Let_def)

lemma last_upt_20: "last [0 ..< 20] = (19::nat)"
  by (simp add: last_upt)

lemma buildPlan_20_5:
  "buildPlan wl wt 20 None 5 =
     Inr \<lparr> framesToRender = [0, 5, 10, 15], lastFrame = 15, countType = FromZero,
           filePadLength = wt 4 \<rparr>"
  by (simp add: buildPlan_def getRealFrameRange_def frames_20_5 chooseCountType_def
        getFilePadLength_def)
     (simp add: eval_nat_numeral)

text \<open>
  C3. When the plan is built with stride 1, the numbering mode is actual-frames, the
  output indices are the frame numbers, and the padding width is computed from the
  last frame number, which is the largest of the plan. With a stride greater than 1 the
  mode is from-zero, the output indices are \<open>0, 1, 2, ...\<close>, and the width is
  computed from the number of frames. Over 20 frames with stride 5 the plan is
  \<open>[0, 5, 10, 15]\<close>, from-zero, with output indices \<open>[0, 1, 2, 3]\<close> and the width
  computed from 4.
\<close>

theorem numbering_mode:
  "(buildPlan widthOfLastFrame widthOfTotalFrames durationInFrames frameRange everyNthFrame
      = Inr plan \<longrightarrow>
      (everyNthFrame = 1 \<longrightarrow>
          countType plan = ActualFrames
        \<and> outputIndices plan = framesToRender plan
        \<and> filePadLength plan = widthOfLastFrame (last (framesToRender plan))
        \<and> last (framesToRender plan) = Max (set (framesToRender plan)))
    \<and> (1 < everyNthFrame \<longrightarrow>
          countType plan = FromZero
        \<and> outputIndices plan = [0 ..< length (framesToRender plan)]
        \<and> filePadLength plan = widthOfTotalFrames (length (framesToRender plan))))
   \<and> buildPlan widthOfLastFrame widthOfTotalFrames 20 None 5 =
       Inr \<lparr> framesToRender = [0, 5, 10, 15], lastFrame = 15, countType = FromZero,
             filePadLength = widthOfTotalFrames 4 \<rparr>
   \<and> outputIndices \<lparr> framesToRender = [0, 5, 10, 15], lastFrame = 15, countType = FromZero,
                      filePadLength = widthOfTotalFrames 4 \<rparr> = [0, 1, 2, 3]"
proof (intro conjI impI)
  assume b: "buildPlan widthOfLastFrame widthOfTotalFrames durationInFrames frameRange
               everyNthFrame = Inr plan"
  from buildPlan_Inr[OF b] obtain frames where
    fr: "getFramesToRender (getRealFrameRange durationInFrames frameRange) everyNthFrame
           = Inr frames"
    and pl: "plan = \<lparr> framesToRender = frames, lastFrame = last frames,
                       countType = chooseCountType everyNthFrame,
                       filePadLength = getFilePadLength widthOfLastFrame widthOfTotalFrames
                          (last frames) (length frames) (chooseCountType everyNthFrame) \<rparr>"
    by blast
  have srt: "sorted frames" "frames \<noteq> []"
    using getFramesToRender_sorted[OF fr] by simp_all
  {
    assume one: "everyNthFrame = 1"
    show "countType plan = ActualFrames"
      by (simp add: pl one chooseCountType_def)
    show "outputIndices plan = framesToRender plan"
      by (simp add: pl one chooseCountType_def outputIndices_def frameTasks_def
            map_outputIndex_actual)
    show "filePadLength plan = widthOfLastFrame (last (framesToRender plan))"
      by (simp add: pl one chooseCountType_def getFilePadLength_def)
    show "last (framesToRender plan) = Max (set (framesToRender plan))"
      using last_sorted_Max[OF srt] by (simp add: pl)
  }
  {
    assume more: "1 < everyNthFrame"
    show "countType plan = FromZero"
      using more by (simp add: pl chooseCountType_def)
    show "outputIndices plan = [0 ..< length (framesToRender plan)]"
      using more by (simp add: pl chooseCountType_def outputIndices_def frameTasks_def
            map_outputIndex_zero)
    show "filePadLength plan = widthOfTotalFrames (length (framesToRender plan))"
      using more by (simp add: pl chooseCountType_def getFilePadLength_def)
  }
next
  show "buildPlan widthOfLastFrame widthOfTotalFrames 20 None 5 =
       Inr \<lparr> framesToRender = [0, 5, 10, 15], lastFrame = 15, countType = FromZero,
             filePadLength = widthOfTotalFrames 4 \<rparr>"
    by (rule buildPlan_20_5)
next
  show "outputIndices \<lparr> framesToRender = [0, 5, 10, 15], lastFrame = 15, countType = FromZero,
                      filePadLength = widthOfTotalFrames 4 \<rparr> = [0, 1, 2, 3]"
    by (simp add: outputIndices_def frameTasks_def outputIndex_def upt_rec)
qed

theorem numbering_mode_witness:
  "buildPlan id id 20 (Some (0, 19)) 1
     = Inr \<lparr> framesToRender = [0 ..< 20], lastFrame = 19, countType = ActualFrames,
             filePadLength = 19 \<rparr>
   \<and> outputIndices \<lparr> framesToRender = [0 ..< 20], lastFrame = 19, countType = ActualFrames,
                      filePadLength = 19 \<rparr> = [0 ..< 20]
   \<and> buildPlan id id 20 None 5
     = Inr \<lparr> framesToRender = [0, 5, 10, 15], lastFrame = 15, countType = FromZero,
             filePadLength = 4 \<rparr>
   \<and> (1::nat) < 5
   \<and> outputIndices \<lparr> framesToRender = [0, 5, 10, 15], lastFrame = 15, countType = FromZero,
                      filePadLength = 4 \<rparr> = [0, 1, 2, 3]"
proof -
  have b1: "buildPlan id id 20 (Some (0, 19)) 1
     = Inr \<lparr> framesToRender = [0 ..< 20], lastFrame = 19, countType = ActualFrames,
             filePadLength = 19 \<rparr>"
    by (simp add: buildPlan_def getRealFrameRange_def frames_20_1 chooseCountType_def
          getFilePadLength_def last_upt_20 del: upt_Suc)
  have b5: "buildPlan id id 20 None 5
     = Inr \<lparr> framesToRender = [0, 5, 10, 15], lastFrame = 15, countType = FromZero,
             filePadLength = 4 \<rparr>"
    by (simp add: buildPlan_20_5)
  have i1: "outputIndices \<lparr> framesToRender = [0 ..< 20], lastFrame = 19,
              countType = ActualFrames, filePadLength = 19 \<rparr> = [0 ..< 20]"
    using numbering_mode[THEN conjunct1, rule_format, OF b1, THEN conjunct1, rule_format, OF refl]
    by (simp del: upt_Suc)
  have five: "(1::nat) < 5" by simp
  have i5: "outputIndices \<lparr> framesToRender = [0, 5, 10, 15], lastFrame = 15,
              countType = FromZero, filePadLength = 4 \<rparr> = [0, 1, 2, 3]"
    using numbering_mode[THEN conjunct1, rule_format, OF b5, THEN conjunct2, rule_format, OF five]
    by (simp add: eval_nat_numeral)
  from b1 i1 b5 five i5 show ?thesis by blast
qed

subsection \<open>One render attempt\<close>

lemma frames_single: "getFramesToRender (0, 0) (Suc 0) = Inr [0]"
  by (simp add: getFramesToRender_def)

lemmas single_frame_run = innerRenderFrames_def buildPlan_def getRealFrameRange_def
  frames_single frameTasks_def chooseCountType_def getFilePadLength_def
  MAX_RETRIES_PER_FRAME_def renderFrameAndRetryTargetClose.simps

text \<open>
  C5, as stated, fails: a run that asks for neither output mode fails with the
  configuration error only after its frame task has acquired page 0 and driven it to
  frame 0.
\<close>

theorem output_mode_error_counterexample:
  "innerRenderFrames isCancel isCrash id id (\<lambda>_ a. a) noOutput False 1 None 1 (\<lambda>_ _. okEnv)
     = Inr (Failed NoOutputSpecified,
            \<lparr> pool = \<lparr> idle = [], busy = [0], waiters = [] \<rparr>, pagesArray = [0],
              stopped = False, assets = [None], framesRendered = 0,
              events = [NewPage 0, Attempt 0 0 1, Acquired 0 0, Seeked 0 0] \<rparr>)"
  by (simp add: single_frame_run run_defs input_defs noOutput_def)

text \<open>
  C5, amended. When the image format requires capture, asking for both output modes or
  for neither is a configuration error of the frame task: the task throws it once it has
  acquired a page and \<^verbatim>\<open>seekToFrame\<close> has resolved on it, keeping the page busy; it
  is thrown nowhere else, and the task captures nothing and fills no slot.
\<close>

theorem output_mode_error_after_seek:
  assumes fmt: "imageFormat opts \<noteq> ''none''"
    and mode: "truthyDir (outputDir opts) = onFrameBuffer opts"
    and run: "renderFrameWithOptionToReject opts compressAsset env frame index s
                = (rejects, bodyEnd, s')"
  shows "(\<forall>page rest. idle (pool s) = page # rest \<and> \<not> stopped s \<and> \<not> cancelBeforeCheck env
              \<and> seekToFrame env = None \<longrightarrow>
            bodyEnd = Threw (if onFrameBuffer opts then BothOutputsSpecified
                             else NoOutputSpecified)
          \<and> events s' = events s @ [Acquired index page, Seeked page frame]
          \<and> busy (pool s') = page # busy (pool s))
       \<and> (bodyEnd = Threw BothOutputsSpecified \<or> bodyEnd = Threw NoOutputSpecified \<longrightarrow>
            (\<exists>page. events s' = events s @ [Acquired index page, Seeked page frame]))
       \<and> assets s' = assets s \<and> framesRendered s' = framesRendered s
       \<and> (\<forall>page f. Captured page f \<in> set (events s') \<longrightarrow> Captured page f \<in> set (events s))"
  using run fmt mode
  by (auto simp: renderFrameWithOptionToReject_def acquire_def emit_def Let_def
      split: list.splits option.splits if_splits)

theorem output_mode_error_after_seek_witness:
  "imageFormat noOutput \<noteq> ''none''
   \<and> truthyDir (outputDir noOutput) = onFrameBuffer noOutput
   \<and> renderFrameWithOptionToReject noOutput (\<lambda>_ a. a) okEnv 0 0 (initialState 1 (planOf [0]))
       = ([], Threw NoOutputSpecified,
          \<lparr> pool = \<lparr> idle = [], busy = [0], waiters = [] \<rparr>, pagesArray = [0],
            stopped = False, assets = [None], framesRendered = 0,
            events = [NewPage 0, Acquired 0 0, Seeked 0 0] \<rparr>)
   \<and> (\<forall>page f. Captured page f \<notin> set [NewPage 0, Acquired 0 0, Seeked 0 0])"
proof -
  have h1: "imageFormat noOutput \<noteq> ''none''"
    by (simp add: noOutput_def)
  have h2: "truthyDir (outputDir noOutput) = onFrameBuffer noOutput"
    by (simp add: noOutput_def truthyDir_def)
  have h3: "renderFrameWithOptionToReject noOutput (\<lambda>_ a. a) okEnv 0 0
              (initialState 1 (planOf [0]))
       = ([], Threw NoOutputSpecified,
          \<lparr> pool = \<lparr> idle = [], busy = [0], waiters = [] \<rparr>, pagesArray = [0],
            stopped = False, assets = [None], framesRendered = 0,
            events = [NewPage 0, Acquired 0 0, Seeked 0 0] \<rparr>)"
    by (simp add: run_defs input_defs noOutput_def)
  have "\<forall>page f. Captured page f \<in> set [NewPage 0, Acquired 0 0, Seeked 0 0]
          \<longrightarrow> Captured page f \<in> set (events (initialState 1 (planOf [0]) :: nat RenderState))"
    using output_mode_error_after_seek[OF h1 h2 h3] by simp
  then have h4: "\<forall>page f. Captured page f \<notin> set [NewPage 0, Acquired 0 0, Seeked 0 0]"
    by (simp add: run_defs)
  from h1 h2 h3 h4 show ?thesis by blast
qed




subsection \<open>A frame task with its retries\<close>




lemma quiet_simps [simp]:
  "quiet []"
  "quiet (e # evs) = (\<not> isAttempt e \<and> e \<noteq> BrowserReplaced \<and> quiet evs)"
  "quiet (xs @ ys) = (quiet xs \<and> quiet ys)"
  by (auto simp: quiet_def attempts_def replacementsIn_def)

lemma isAttempt_simps [simp]:
  "isAttempt (Attempt f i a)" "\<not> isAttempt (NewPage p)" "\<not> isAttempt (Acquired i p)"
  "\<not> isAttempt (Seeked p f)" "\<not> isAttempt (Captured p f)" "\<not> isAttempt (FrameBuffer f)"
  "\<not> isAttempt (AssetsWritten i)" "\<not> isAttempt (FrameUpdate n f)" "\<not> isAttempt (Released p)"
  "\<not> isAttempt BrowserReplaced"
  by (simp_all add: isAttempt_def)



lemma makePages_events:
  "makePages n s = (pages, s') \<Longrightarrow> \<exists>new. events s' = events s @ new \<and> quiet new
      \<and> pool s' = pool s \<and> stopped s' = stopped s \<and> assets s' = assets s
      \<and> framesRendered s' = framesRendered s \<and> length pages = n"
proof (induction n arbitrary: s pages s')
  case 0
  then show ?case by simp
next
  case (Suc n)
  obtain pg s1 where m: "makePage s = (pg, s1)" by (cases "makePage s")
  obtain pgs s2 where r: "makePages n s1 = (pgs, s2)" by (cases "makePages n s1")
  from Suc.prems m r have eq: "pages = pg # pgs" "s' = s2" by simp_all
  from m have e1: "events s1 = events s @ [NewPage pg]" "pool s1 = pool s" "stopped s1 = stopped s"
    "assets s1 = assets s" "framesRendered s1 = framesRendered s"
    by (auto simp: makePage_def emit_def Let_def)
  from Suc.IH[OF r] e1 eq show ?case by auto
qed


lemma refill_fields:
  "stopped (refillPool n s) = stopped s \<and> assets (refillPool n s) = assets s
   \<and> framesRendered (refillPool n s) = framesRendered s"
proof -
  obtain pgs s1 where r: "makePages n s = (pgs, s1)" by (cases "makePages n s")
  from makePages_events[OF r] show ?thesis by (auto simp: refillPool_def r)
qed







subsection \<open>Worker pool\<close>

lemma handles_acquire: "handles (snd (acquire caller p)) = handles p"
  by (simp add: acquire_def handles_def split: list.splits)

lemma handles_release_busy:
  "h \<in> set (busy p) \<Longrightarrow> handles (snd (release h p)) = handles p"
proof -
  assume h: "h \<in> set (busy p)"
  then have "length (busy p) > 0" by (cases "busy p") auto
  with h show ?thesis
    by (auto simp: release_def handles_def length_remove1 split: list.splits)
qed

lemma handles_release_new:
  "h \<notin> set (busy p) \<Longrightarrow> handles (snd (release h p)) = Suc (handles p)"
  by (auto simp: release_def handles_def remove1_idem split: list.splits)

lemma busy_release: "set (busy (snd (release h p))) \<subseteq> insert h (set (busy p))"
  by (auto simp: release_def split: list.splits dest: notin_set_remove1)

lemma handles_fold_release:
  "distinct pages \<Longrightarrow> set pages \<inter> set (busy p) = {} \<Longrightarrow>
     handles (fold (\<lambda>newPage p. snd (release newPage p)) pages p) = handles p + length pages"
proof (induction pages arbitrary: p)
  case Nil
  then show ?case by simp
next
  case (Cons x xs)
  have x: "x \<notin> set (busy p)" using Cons.prems by auto
  have "set xs \<inter> set (busy (snd (release x p))) = {}"
    using Cons.prems busy_release[of x p] by auto
  with Cons have "handles (fold (\<lambda>newPage p. snd (release newPage p)) xs (snd (release x p)))
      = handles (snd (release x p)) + length xs"
    by simp
  then show ?case by (simp add: handles_release_new[OF x])
qed

lemma makePages_pages:
  "makePages n s = (pages, s') \<Longrightarrow>
     pages = [length (pagesArray s) ..< length (pagesArray s) + n] \<and> pool s' = pool s"
proof (induction n arbitrary: s pages s')
  case 0
  then show ?case by simp
next
  case (Suc n)
  obtain pgs s2 where r: "makePages n (snd (makePage s)) = (pgs, s2)"
    by (cases "makePages n (snd (makePage s))")
  have m: "makePage s = (length (pagesArray s), snd (makePage s))"
    by (simp add: makePage_def Let_def)
  have l: "length (pagesArray (snd (makePage s))) = Suc (length (pagesArray s))"
       "pool (snd (makePage s)) = pool s"
    by (simp_all add: makePage_def Let_def emit_def)
  from Suc.prems r have eq: "pages = length (pagesArray s) # pgs" "s' = s2"
    by (simp_all add: makePage_def Let_def split: prod.splits)
  from Suc.IH[OF r] l eq show ?case by (simp add: upt_rec[of "length (pagesArray s)"])
qed

lemma handles_getPool: "handles (pool (getPool n s)) = n \<and> busy (pool (getPool n s)) = []"
proof -
  obtain pages s1 where r: "makePages n s = (pages, s1)" by (cases "makePages n s")
  from makePages_pages[OF r] show ?thesis
    by (simp add: getPool_def r newPool_def handles_def)
qed

lemma handles_refill:
  assumes "\<forall>h \<in> set (busy (pool s)). h < length (pagesArray s)"
  shows "handles (pool (refillPool n s)) = handles (pool s) + n"
proof -
  obtain pages s1 where r: "makePages n s = (pages, s1)" by (cases "makePages n s")
  from makePages_pages[OF r] have p: "pages = [length (pagesArray s) ..< length (pagesArray s) + n]"
    and q: "pool s1 = pool s" by simp_all
  have "distinct pages" "set pages \<inter> set (busy (pool s1)) = {}"
    using assms by (auto simp: p q)
  from handles_fold_release[OF this] show ?thesis
    by (simp add: refillPool_def r p q)
qed

text \<open>
  C8, as stated, fails: with a pool of one handle, a frame whose two attempts both crash
  leaves two handles busy at once, since the handle of the first attempt is never
  released and the refill after the crash adds a fresh one.
\<close>

theorem pool_handles_counterexample:
  "renderFrameAndRetryTargetClose isCancel isCrash toDir (\<lambda>_ a. a) crashTwice 0 0
       MAX_RETRIES_PER_FRAME 1 (initialState 1 (planOf [0]))
     = (Rejected (External ''Target closed''),
        \<lparr> pool = \<lparr> idle = [], busy = [1, 0], waiters = [] \<rparr>, pagesArray = [0, 1],
          stopped = False, assets = [None], framesRendered = 0,
          events = [NewPage 0, Attempt 0 0 1, Acquired 0 0, Seeked 0 0, BrowserReplaced,
                    NewPage 1, Attempt 0 0 2, Acquired 0 1, Seeked 1 0] \<rparr>)
   \<and> actualConcurrency toDir = 1
   \<and> handles \<lparr> idle = [], busy = [1, 0], waiters = [] \<rparr> = 2"
  by (simp add: renderFrameAndRetryTargetClose.simps MAX_RETRIES_PER_FRAME_def run_defs
        input_defs crashTwice_def handles_def)

text \<open>
  C8, amended. The pool is created once with exactly \<open>C\<close> handles, none of them busy.
  \<open>acquire\<close> keeps the number of handles (idle plus busy), and so does the release
  of a busy handle. The refill after a crash releases \<open>C\<close> newly opened handles into
  the pool and takes none out: it raises the number of handles by \<open>C\<close>.
\<close>

theorem pool_handles:
  "handles (pool (initialState concurrency plan)) = concurrency
   \<and> busy (pool (initialState concurrency plan)) = []
   \<and> handles (snd (acquire caller p)) = handles p
   \<and> (h \<in> set (busy p) \<longrightarrow> handles (snd (release h p)) = handles p)
   \<and> ((\<forall>h \<in> set (busy (pool s)). h < length (pagesArray s)) \<longrightarrow>
        handles (pool (refillPool concurrency s)) = handles (pool s) + concurrency)"
  by (simp add: initialState_def handles_getPool handles_acquire handles_release_busy handles_refill)

theorem pool_handles_witness:
  "0 \<in> set (busy (pool afterCrash))
   \<and> handles (snd (release 0 (pool afterCrash))) = handles (pool afterCrash)
   \<and> busy (pool afterCrash) = [0] \<and> pagesArray afterCrash = [0]
   \<and> handles (pool (refillPool 1 afterCrash)) = 2"
proof -
  have b: "0 \<in> set (busy (pool afterCrash))"
    and f: "\<forall>h \<in> set (busy (pool afterCrash)). h < length (pagesArray afterCrash)"
    and h: "handles (pool afterCrash) = 1"
    by (simp_all add: afterCrash_def handles_def)
  note p = pool_handles[where h = 0 and p = "pool afterCrash" and s = afterCrash
      and concurrency = 1 and caller = 0 and plan = "planOf [0]"]
  have r1: "handles (snd (release 0 (pool afterCrash))) = handles (pool afterCrash)"
    using p b by blast
  have r2: "handles (pool (refillPool 1 afterCrash)) = handles (pool afterCrash) + 1"
    using p f by blast
  from r2 h have r3: "handles (pool (refillPool 1 afterCrash)) = 2"
    by simp
  have g: "busy (pool afterCrash) = [0] \<and> pagesArray afterCrash = [0]"
    by (simp add: afterCrash_def)
  from b r1 g r3 show ?thesis by blast
qed

subsection \<open>Crash recovery coordinator\<close>




subsection \<open>The manifest\<close>

lemma digit_chars: "\<forall>d<10. of_char (''0123456789'' ! d) = (48::nat) + d"
  by (simp add: eval_nat_numeral All_less_Suc)

lemma digit_char: "d < 10 \<Longrightarrow> of_char (''0123456789'' ! d) = (48::nat) + d"
  using digit_chars by blast

lemma decimalValue_snoc:
  "decimalValue (str @ [ch]) = 10 * decimalValue str + (of_char ch - 48)"
  by (simp add: decimalValue_def)

lemma decimalValue_showNat: "decimalValue (showNat n) = n"
proof (induction n rule: showNat.induct)
  case (1 n)
  show ?case
  proof (cases "n < 10")
    case True
    then show ?thesis
      by (subst showNat.simps) (simp add: decimalValue_def digit_char)
  next
    case False
    with 1 have "decimalValue (showNat (n div 10)) = n div 10" by simp
    with False show ?thesis
      by (subst showNat.simps) (simp add: decimalValue_snoc digit_char)
  qed
qed

lemma plan_single:
  "buildPlan digits digits 1 None 1
     = Inr \<lparr> framesToRender = [0], lastFrame = 0, countType = ActualFrames,
             filePadLength = 1 \<rparr>"
  by (simp add: buildPlan_def getRealFrameRange_def frames_single chooseCountType_def
        getFilePadLength_def digits_def showNat.simps)

lemma run_single:
  "innerRenderFrames isCancel isCrash digits digits (\<lambda>_ a. a) toDir False 1 None 1
       (\<lambda>_ _. okEnv)
     = Inr (Fulfilled \<lparr> assetsOut = [Some [7]], imageSequenceName = ''element-%01d.png'',
                        firstFrameIndex = 0, frameCount = 1 \<rparr>,
            afterOneFrame)"
  by (simp add: single_frame_run run_defs input_defs afterOneFrame_def happyPath_def
        digits_def showNat.simps)

text \<open>
  C6. The manifest of a successful run holds the asset slots of the run; the naming
  template \<open>element-%0Nd.ext\<close>, where \<open>N\<close> is the padding width of the plan in
  decimal digits and \<open>ext\<close> the image format; the first output index, which is 0 in
  from-zero mode and the first planned frame in actual-frames mode; and the number of
  planned frames.
\<close>

theorem manifest:
  assumes plan: "buildPlan widthOfLastFrame widthOfTotalFrames durationInFrames frameRange
                   everyNthFrame = Inr plan"
    and ok: "innerRenderFrames isUserCancelledRender isTargetClosedErr widthOfLastFrame
               widthOfTotalFrames compressAsset opts quality durationInFrames frameRange
               everyNthFrame envs = Inr (Fulfilled m, s)"
  shows "assetsOut m = assets s
       \<and> imageSequenceName m
           = ''element-%0'' @ showNat (filePadLength plan) @ ''d.'' @ imageFormat opts
       \<and> decimalValue (showNat (filePadLength plan)) = filePadLength plan
       \<and> (countType plan = FromZero \<longrightarrow> firstFrameIndex m = 0)
       \<and> (countType plan = ActualFrames \<longrightarrow>
            framesToRender plan \<noteq> [] \<and> firstFrameIndex m = framesToRender plan ! 0)
       \<and> frameCount m = length (framesToRender plan)"
proof -
  from buildPlan_Inr[OF plan] obtain frames where
    fr: "getFramesToRender (getRealFrameRange durationInFrames frameRange) everyNthFrame
           = Inr frames"
    and pl: "framesToRender plan = frames"
    by auto
  have ne: "framesToRender plan \<noteq> []"
    using getFramesToRender_sorted[OF fr] pl by simp
  from ok plan have m: "m = happyPath opts plan s"
    by (auto simp: innerRenderFrames_def split: if_splits prod.splits Settled.splits)
  show ?thesis
    using ne by (simp add: m happyPath_def decimalValue_showNat hd_conv_nth)
qed

theorem manifest_witness:
  "buildPlan digits digits 1 None 1
     = Inr \<lparr> framesToRender = [0], lastFrame = 0, countType = ActualFrames,
             filePadLength = 1 \<rparr>
   \<and> innerRenderFrames isCancel isCrash digits digits (\<lambda>_ a. a) toDir False 1 None 1
       (\<lambda>_ _. okEnv)
     = Inr (Fulfilled \<lparr> assetsOut = [Some [7]], imageSequenceName = ''element-%01d.png'',
                        firstFrameIndex = 0, frameCount = 1 \<rparr>,
            afterOneFrame)
   \<and> ''element-%01d.png'' = ''element-%0'' @ showNat 1 @ ''d.'' @ imageFormat toDir
   \<and> decimalValue (showNat 1) = 1"
proof -
  from manifest[OF plan_single run_single]
  have "''element-%01d.png'' = ''element-%0'' @ showNat 1 @ ''d.'' @ imageFormat toDir
        \<and> decimalValue (showNat 1) = 1"
    by simp
  with plan_single run_single show ?thesis by blast
qed

subsection \<open>Slots and cancellation over a whole run\<close>


lemma try_stopped:
  assumes "stopped s \<or> cancelBeforeCheck env"
  shows "tryRenderFrame opts compressAsset env frame index s
           = (Rejected CancelledRenderFrames,
              case idle (pool s) of
                [] \<Rightarrow> s\<lparr> stopped := True,
                          pool := (pool s)\<lparr> waiters := waiters (pool s) @ [index] \<rparr> \<rparr>
              | page # rest \<Rightarrow>
                  emit (Acquired index page)
                    (s\<lparr> stopped := True,
                       pool := (pool s)\<lparr> idle := rest, busy := page # busy (pool s) \<rparr> \<rparr>))"
  using assms
  by (auto simp: tryRenderFrame_def renderFrameWithOptionToReject_def acquire_def Let_def
        emit_def split: list.splits)


lemma emit_fields [simp]:
  "assets (emit e s) = assets s" "stopped (emit e s) = stopped s"
  "framesRendered (emit e s) = framesRendered s" "pool (emit e s) = pool s"
  "events (emit e s) = events s @ [e]" "filled (emit e s) j = filled s j"
  by (simp_all add: emit_def filled_def)

lemma filled_stopped_upd [simp]: "filled (s\<lparr> stopped := b \<rparr>) j = filled s j"
  by (simp add: filled_def)

lemma filled_refill [simp]: "filled (refillPool n s) j = filled s j"
  using refill_fields[of n s] by (simp add: filled_def)



lemma getPool_assets: "assets (getPool n s) = assets s \<and> stopped (getPool n s) = stopped s
   \<and> framesRendered (getPool n s) = framesRendered s"
proof -
  obtain pgs s1 where r: "makePages n s = (pgs, s1)" by (cases "makePages n s")
  from makePages_events[OF r] show ?thesis by (auto simp: getPool_def r)
qed

lemma initial_assets:
  "assets (initialState n plan) = replicate (length (framesToRender plan)) None
   \<and> \<not> stopped (initialState n plan) \<and> framesRendered (initialState n plan) = 0"
  by (simp add: initialState_def getPool_assets)

lemma since_append: "events s' = events s @ new \<Longrightarrow> since s s' = new"
  by (simp add: since_def)






lemma capturesIn_simps [simp]:
  "capturesIn [] = 0"
  "capturesIn (xs @ ys) = capturesIn xs + capturesIn ys"
  "capturesIn (Attempt f i a # xs) = capturesIn xs"
  "capturesIn (Acquired i p # xs) = capturesIn xs"
  "capturesIn (NewPage p # xs) = capturesIn xs"
  by (simp_all add: capturesIn_def)

lemma task_cancelled:
  assumes fired: "stopped s \<or> cancelBeforeCheck (envs attempt)"
    and task: "renderFrameAndRetryTargetClose isUserCancelledRender isTargetClosedErr opts
                 compressAsset envs frame index retriesLeft attempt s = (r, s')"
  shows "r = (if isUserCancelledRender CancelledRenderFrames
                  \<or> \<not> isTargetClosedErr CancelledRenderFrames
              then Rejected CancelledRenderFrames else Resolved)
       \<and> s' = (case idle (pool s) of
                  [] \<Rightarrow> (emit (Attempt frame index attempt) s)
                          \<lparr> stopped := True,
                            pool := (pool s)\<lparr> waiters := waiters (pool s) @ [index] \<rparr> \<rparr>
                | page # rest \<Rightarrow>
                    emit (Acquired index page)
                      ((emit (Attempt frame index attempt) s)
                         \<lparr> stopped := True,
                           pool := (pool s)\<lparr> idle := rest, busy := page # busy (pool s) \<rparr> \<rparr>))"
proof -
  have f: "stopped (emit (Attempt frame index attempt) s) \<or> cancelBeforeCheck (envs attempt)"
    using fired by simp
  define s2 where "s2 = (case idle (pool (emit (Attempt frame index attempt) s)) of
                [] \<Rightarrow> (emit (Attempt frame index attempt) s)\<lparr> stopped := True,
                          pool := (pool (emit (Attempt frame index attempt) s))
                             \<lparr> waiters := waiters (pool (emit (Attempt frame index attempt) s))
                                            @ [index] \<rparr> \<rparr>
              | page # rest \<Rightarrow>
                  emit (Acquired index page)
                    ((emit (Attempt frame index attempt) s)\<lparr> stopped := True,
                       pool := (pool (emit (Attempt frame index attempt) s))
                          \<lparr> idle := rest,
                            busy := page # busy (pool (emit (Attempt frame index attempt) s)) \<rparr> \<rparr>))"
  have t: "tryRenderFrame opts compressAsset (envs attempt) frame index
             (emit (Attempt frame index attempt) s) = (Rejected CancelledRenderFrames, s2)"
    unfolding s2_def by (rule try_stopped[OF f])
  have st: "stopped s2" "s2\<lparr> stopped := True \<rparr> = s2"
    by (simp_all add: s2_def emit_def split: list.splits)
  have r: "(r, s') = (if isUserCancelledRender CancelledRenderFrames
                  \<or> \<not> isTargetClosedErr CancelledRenderFrames
              then Rejected CancelledRenderFrames else Resolved, s2)"
    using task
    by (subst (asm) renderFrameAndRetryTargetClose.simps)
       (auto simp: t st Let_def split: if_splits)
  then show ?thesis
    by (simp add: s2_def split: list.splits)
qed

lemma task_frozen:
  assumes fired: "stopped s \<or> cancelBeforeCheck (envs attempt)"
    and task: "renderFrameAndRetryTargetClose isUserCancelledRender isTargetClosedErr opts
                 compressAsset envs frame index retriesLeft attempt s = (r, s')"
  shows "stopped s' \<and> assets s' = assets s \<and> framesRendered s' = framesRendered s
       \<and> capturesIn (events s') = capturesIn (events s)
       \<and> (r = Resolved \<or> r = Rejected CancelledRenderFrames)"
  using task_cancelled[OF fired task]
  by (auto simp: emit_def split: list.splits if_splits)

lemma progress_frozen:
  "stopped s \<Longrightarrow>
   progress isUserCancelledRender isTargetClosedErr opts compressAsset envs tasks s = (r, s') \<Longrightarrow>
   stopped s' \<and> assets s' = assets s \<and> framesRendered s' = framesRendered s
   \<and> capturesIn (events s') = capturesIn (events s)
   \<and> (r = Resolved \<or> r = Rejected CancelledRenderFrames)"
proof (induction tasks arbitrary: s r s')
  case Nil
  then show ?case by simp
next
  case (Cons task tasks)
  obtain frame index where task: "task = (frame, index)" by (cases task)
  obtain r1 s1 where t: "renderFrameAndRetryTargetClose isUserCancelledRender isTargetClosedErr
      opts compressAsset (envs index) frame index MAX_RETRIES_PER_FRAME 1 s = (r1, s1)"
    by (cases "renderFrameAndRetryTargetClose isUserCancelledRender isTargetClosedErr
      opts compressAsset (envs index) frame index MAX_RETRIES_PER_FRAME 1 s")
  have "stopped s \<or> cancelBeforeCheck (envs index 1)" using Cons.prems(1) by simp
  note a = task_frozen[OF this t]
  show ?case
  proof (cases "r1 = Resolved")
    case True
    with Cons.prems(2) task t
    have p: "progress isUserCancelledRender isTargetClosedErr opts compressAsset envs tasks s1
               = (r, s')"
      by simp
    from a have "stopped s1" by simp
    from Cons.IH[OF this p] a show ?thesis by simp
  next
    case False
    with a have "r1 = Rejected CancelledRenderFrames" by simp
    with Cons.prems(2) task t have "r = Rejected CancelledRenderFrames" "s' = s1" by simp_all
    with a show ?thesis by simp
  qed
qed

lemma progress_cancelled_first:
  assumes c: "cancelBeforeCheck (envs index 1)"
    and p: "progress isUserCancelledRender isTargetClosedErr opts compressAsset envs
              ((frame, index) # tasks) s = (r, s')"
  shows "stopped s' \<and> assets s' = assets s \<and> framesRendered s' = framesRendered s
       \<and> capturesIn (events s') = capturesIn (events s)
       \<and> (r = Resolved \<or> r = Rejected CancelledRenderFrames)"
proof -
  obtain r1 s1 where t: "renderFrameAndRetryTargetClose isUserCancelledRender isTargetClosedErr
      opts compressAsset (envs index) frame index MAX_RETRIES_PER_FRAME 1 s = (r1, s1)"
    by (cases "renderFrameAndRetryTargetClose isUserCancelledRender isTargetClosedErr
      opts compressAsset (envs index) frame index MAX_RETRIES_PER_FRAME 1 s")
  have "stopped s \<or> cancelBeforeCheck (envs index 1)" using c by simp
  note a = task_frozen[OF this t]
  show ?thesis
  proof (cases "r1 = Resolved")
    case True
    with p t
    have q: "progress isUserCancelledRender isTargetClosedErr opts compressAsset envs tasks s1
               = (r, s')"
      by simp
    from a have "stopped s1" by simp
    from progress_frozen[OF this q] a show ?thesis by simp
  next
    case False
    with a have "r1 = Rejected CancelledRenderFrames" by simp
    with p t have "r = Rejected CancelledRenderFrames" "s' = s1" by simp_all
    with a show ?thesis by simp
  qed
qed

lemma frameTasks_first:
  "framesToRender plan \<noteq> [] \<Longrightarrow>
     \<exists>frame tasks. frameTasks plan = (frame, 0) # tasks"
  by (cases "framesToRender plan") (simp_all add: frameTasks_def upt_rec)

lemma initial_captures: "capturesIn (events (initialState n plan)) = 0"
proof -
  have "\<And>s :: 'a RenderState. capturesIn (events (getPool n s)) = capturesIn (events s)"
  proof -
    fix s :: "'a RenderState"
    obtain pgs s1 where r: "makePages n s = (pgs, s1)" by (cases "makePages n s")
    have "\<And>pgs s1 s :: 'a RenderState. makePages n s = (pgs, s1)
            \<Longrightarrow> capturesIn (events s1) = capturesIn (events s)"
    proof (induction n)
      case 0
      then show ?case by simp
    next
      case (Suc n)
      then show ?case
        by (auto simp: makePage_def Let_def emit_def split: prod.splits)
    qed
    from this[OF r] show "capturesIn (events (getPool n s)) = capturesIn (events s)"
      by (simp add: getPool_def r)
  qed
  then show ?thesis by (simp add: initialState_def)
qed

lemma run_cancelled:
  assumes plan: "buildPlan widthOfLastFrame widthOfTotalFrames durationInFrames frameRange
                   everyNthFrame = Inr plan"
    and c: "cancelBeforeCheck (envs 0 1)"
    and q: "\<not> quality"
  shows "\<exists>outcome s. innerRenderFrames isUserCancelledRender isTargetClosedErr widthOfLastFrame
               widthOfTotalFrames compressAsset opts quality durationInFrames frameRange
               everyNthFrame envs = Inr (outcome, s)
          \<and> stopped s \<and> framesRendered s = 0 \<and> capturesIn (events s) = 0
          \<and> assets s = replicate (length (framesToRender plan)) None"
proof -
  from buildPlan_Inr[OF plan] obtain frames where
    fr: "getFramesToRender (getRealFrameRange durationInFrames frameRange) everyNthFrame
           = Inr frames"
    and pl: "framesToRender plan = frames"
    by auto
  have "framesToRender plan \<noteq> []"
    using getFramesToRender_sorted[OF fr] pl by simp
  from frameTasks_first[OF this] obtain frame tasks where
    ft: "frameTasks plan = (frame, 0) # tasks" by blast
  obtain r s where p: "progress isUserCancelledRender isTargetClosedErr opts compressAsset envs
      ((frame, 0) # tasks) (initialState (actualConcurrency opts) plan) = (r, s)"
    by (cases "progress isUserCancelledRender isTargetClosedErr opts compressAsset envs
      ((frame, 0) # tasks) (initialState (actualConcurrency opts) plan)")
  note a = progress_cancelled_first[OF c p]
  from a p show ?thesis
    by (cases r) (simp_all add: innerRenderFrames_def plan q ft initial_assets initial_captures
        del: progress.simps)
qed

lemma stopped_task:
  "renderFrameAndRetryTargetClose isCancel isCrash toDir (\<lambda>_ a. a) (\<lambda>_. okEnv) 0 0
       MAX_RETRIES_PER_FRAME 1 stoppedAtStart
     = (Rejected CancelledRenderFrames, cancelledAfterAcquire)"
  by (simp add: renderFrameAndRetryTargetClose.simps MAX_RETRIES_PER_FRAME_def run_defs
        input_defs stoppedAtStart_def cancelledAfterAcquire_def)

text \<open>
  C4, as stated, fails: a frame task that starts after the cancel signal has fired ends
  with the cancel error, and it has acquired page 0 from the pool all the same.
\<close>

theorem cancelled_before_acquisition_counterexample:
  "stopped stoppedAtStart
   \<and> renderFrameAndRetryTargetClose isCancel isCrash toDir (\<lambda>_ a. a) (\<lambda>_. okEnv) 0 0
       MAX_RETRIES_PER_FRAME 1 stoppedAtStart
     = (Rejected CancelledRenderFrames, cancelledAfterAcquire)
   \<and> Acquired 0 0 \<in> set (events cancelledAfterAcquire)
   \<and> busy (pool cancelledAfterAcquire) = [0]"
  using stopped_task by (simp add: stoppedAtStart_def cancelledAfterAcquire_def)

text \<open>
  C4, amended. When the cancel signal has fired before a frame task reads the stop flag
  (before the task starts, or while it waits for a page), the task still takes a page
  from the pool when one is idle, and queues for one otherwise; it then drives the page
  nowhere, fills no slot, counts no frame and does not release the page, and it ends
  with the cancel error when that error is classified as a cancellation. A signal that
  fires before the first acquisition of a run completes leaves the run with no captured
  frame and rejects it with the cancel error.
\<close>

theorem cancelled_before_acquisition:
  fixes compressAsset :: "'a list \<Rightarrow> 'a \<Rightarrow> 'a"
  assumes fired: "stopped s \<or> cancelBeforeCheck (envs attempt)"
    and task: "renderFrameAndRetryTargetClose isUserCancelledRender isTargetClosedErr opts
                 compressAsset envs frame index retriesLeft attempt s = (r, s')"
  shows "(isUserCancelledRender CancelledRenderFrames \<longrightarrow> r = Rejected CancelledRenderFrames)
       \<and> (\<forall>page rest. idle (pool s) = page # rest \<longrightarrow>
             since s s' = [Attempt frame index attempt, Acquired index page]
           \<and> idle (pool s') = rest \<and> busy (pool s') = page # busy (pool s))
       \<and> (idle (pool s) = [] \<longrightarrow>
             since s s' = [Attempt frame index attempt]
           \<and> waiters (pool s') = waiters (pool s) @ [index])
       \<and> stopped s' \<and> assets s' = assets s \<and> framesRendered s' = framesRendered s
       \<and> (\<forall>runEnvs plan.
             \<not> quality
           \<and> buildPlan widthOfLastFrame widthOfTotalFrames durationInFrames frameRange
                everyNthFrame = Inr plan
           \<and> cancelBeforeCheck (runEnvs 0 1) \<longrightarrow>
             renderFrames isUserCancelledRender isTargetClosedErr widthOfLastFrame
               widthOfTotalFrames compressAsset None opts quality durationInFrames frameRange
               everyNthFrame runEnvs = Failed CancelledRenderFrames
           \<and> (\<exists>outcome final.
                 innerRenderFrames isUserCancelledRender isTargetClosedErr widthOfLastFrame
                   widthOfTotalFrames compressAsset opts quality durationInFrames frameRange
                   everyNthFrame runEnvs = Inr (outcome, final)
               \<and> framesRendered final = 0 \<and> capturesIn (events final) = 0
               \<and> assets final = replicate (length (framesToRender plan)) None))"
proof -
  note t = task_cancelled[OF fired task]
  have a: "isUserCancelledRender CancelledRenderFrames \<longrightarrow> r = Rejected CancelledRenderFrames"
    using t by simp
  have b: "\<forall>page rest. idle (pool s) = page # rest \<longrightarrow>
             since s s' = [Attempt frame index attempt, Acquired index page]
           \<and> idle (pool s') = rest \<and> busy (pool s') = page # busy (pool s)"
    using t by (auto simp: since_def emit_def)
  have c: "idle (pool s) = [] \<longrightarrow>
             since s s' = [Attempt frame index attempt]
           \<and> waiters (pool s') = waiters (pool s) @ [index]"
    using t by (auto simp: since_def emit_def)
  have d: "stopped s' \<and> assets s' = assets s \<and> framesRendered s' = framesRendered s"
    using task_frozen[OF fired task] by simp
  have e: "\<forall>runEnvs plan.
             \<not> quality
           \<and> buildPlan widthOfLastFrame widthOfTotalFrames durationInFrames frameRange
                everyNthFrame = Inr plan
           \<and> cancelBeforeCheck (runEnvs 0 1) \<longrightarrow>
             renderFrames isUserCancelledRender isTargetClosedErr widthOfLastFrame
               widthOfTotalFrames compressAsset None opts quality durationInFrames frameRange
               everyNthFrame runEnvs = Failed CancelledRenderFrames
           \<and> (\<exists>outcome final.
                 innerRenderFrames isUserCancelledRender isTargetClosedErr widthOfLastFrame
                   widthOfTotalFrames compressAsset opts quality durationInFrames frameRange
                   everyNthFrame runEnvs = Inr (outcome, final)
               \<and> framesRendered final = 0 \<and> capturesIn (events final) = 0
               \<and> assets final = replicate (length (framesToRender plan)) None)"
  proof (intro allI impI)
    fix runEnvs :: "nat \<Rightarrow> nat \<Rightarrow> 'a AttemptEnv" and plan
    assume h: "\<not> quality
           \<and> buildPlan widthOfLastFrame widthOfTotalFrames durationInFrames frameRange
                everyNthFrame = Inr plan
           \<and> cancelBeforeCheck (runEnvs 0 1)"
    from run_cancelled[of widthOfLastFrame widthOfTotalFrames durationInFrames frameRange
        everyNthFrame plan runEnvs quality isUserCancelledRender isTargetClosedErr compressAsset
        opts] h
    obtain outcome final where
      i: "innerRenderFrames isUserCancelledRender isTargetClosedErr widthOfLastFrame
            widthOfTotalFrames compressAsset opts quality durationInFrames frameRange
            everyNthFrame runEnvs = Inr (outcome, final)"
      and f: "stopped final" "framesRendered final = 0" "capturesIn (events final) = 0"
         "assets final = replicate (length (framesToRender plan)) None"
      by blast
    have "renderFrames isUserCancelledRender isTargetClosedErr widthOfLastFrame
               widthOfTotalFrames compressAsset None opts quality durationInFrames frameRange
               everyNthFrame runEnvs = Failed CancelledRenderFrames"
      by (simp add: renderFrames_def i f)
    with i f show "renderFrames isUserCancelledRender isTargetClosedErr widthOfLastFrame
               widthOfTotalFrames compressAsset None opts quality durationInFrames frameRange
               everyNthFrame runEnvs = Failed CancelledRenderFrames
           \<and> (\<exists>outcome final.
                 innerRenderFrames isUserCancelledRender isTargetClosedErr widthOfLastFrame
                   widthOfTotalFrames compressAsset opts quality durationInFrames frameRange
                   everyNthFrame runEnvs = Inr (outcome, final)
               \<and> framesRendered final = 0 \<and> capturesIn (events final) = 0
               \<and> assets final = replicate (length (framesToRender plan)) None)"
      by blast
  qed
  from a b c d e show ?thesis by blast
qed

theorem cancelled_before_acquisition_witness:
  "stopped stoppedAtStart
   \<and> renderFrameAndRetryTargetClose isCancel isCrash toDir (\<lambda>_ a. a) (\<lambda>_. okEnv) 0 0
       MAX_RETRIES_PER_FRAME 1 stoppedAtStart
     = (Rejected CancelledRenderFrames, cancelledAfterAcquire)
   \<and> isCancel CancelledRenderFrames
   \<and> idle (pool stoppedAtStart) = [0]
   \<and> since stoppedAtStart cancelledAfterAcquire = [Attempt 0 0 1, Acquired 0 0]
   \<and> busy (pool cancelledAfterAcquire) = [0]
   \<and> assets cancelledAfterAcquire = assets stoppedAtStart"
proof -
  have st: "stopped stoppedAtStart \<or> cancelBeforeCheck ((\<lambda>_. okEnv) (1::nat))"
    and i: "idle (pool stoppedAtStart) = [0]" and b: "busy (pool stoppedAtStart) = []"
    by (simp_all add: stoppedAtStart_def run_defs)
  have c: "isCancel CancelledRenderFrames"
    by (simp add: isCancel_def)
  note t = cancelled_before_acquisition[where envs = "\<lambda>_. okEnv" and attempt = 1
      and s = stoppedAtStart, OF st stopped_task]
  from t[THEN conjunct2, THEN conjunct1, rule_format, OF i]
  have e: "since stoppedAtStart cancelledAfterAcquire = [Attempt 0 0 1, Acquired 0 0]
           \<and> busy (pool cancelledAfterAcquire) = [0]"
    by (simp add: b)
  from t have a: "assets cancelledAfterAcquire = assets stoppedAtStart"
    by blast
  have s: "stopped stoppedAtStart"
    by (simp add: stoppedAtStart_def)
  from s stopped_task c i e a show ?thesis by blast
qed





end
